theory Spec2Isabelle
  imports Main
begin

section \<open>The public developer API of gPodder (gpodder/api.py)\<close>

text \<open>
  The module is a facade: every operation is forwarded to objects of the rest of the
  application (the channel and episode entities, the database handle, the configuration,
  the download task, the OPML exporter, the URL normaliser).  Those objects are not part
  of the module, so the embedding takes them as a parameter: a record of operations over
  a state \<open>'w\<close> that stands for everything they own (the Python objects of the entities,
  the database, the files on disk).  Every operation may change that state and may raise.

  Python objects are handled by reference; a reference is a natural number.
\<close>

type_synonym ref = nat

datatype error =
    AttributeError
  | Raised string

text \<open>
  The operations the facade performs on the rest of the application, with their
  arguments, in the order in which the module's text lists them.  \<open>Load\<close> carries the URL,
  the \<open>create\<close> flag, the \<open>max_episodes\<close> keyword (\<open>None\<close> where the call does not pass it)
  and the download directory.
\<close>

datatype event =
    Get_all_episodes ref
  | Set_custom_title ref string
  | Save ref
  | Remove_downloaded ref
  | Delete ref
  | Update ref int
  | New_DownloadTask ref
  | Set_status ref int
  | Run ref
  | Load_from_db string
  | Normalize_feed_url string
  | Load string bool "int option" string
  | Synchronize_device
  | New_Exporter string
  | Exporter_write ref "ref list"
  | Db_commit

record 'w app =
  chan_title :: "ref \<Rightarrow> 'w \<Rightarrow> string"
  chan_url :: "ref \<Rightarrow> 'w \<Rightarrow> string"
  get_all_episodes :: "ref \<Rightarrow> 'w \<Rightarrow> (error + ref list) \<times> 'w"
  set_custom_title :: "ref \<Rightarrow> string \<Rightarrow> 'w \<Rightarrow> (error + unit) \<times> 'w"
  save :: "ref \<Rightarrow> 'w \<Rightarrow> (error + unit) \<times> 'w"
  remove_downloaded :: "ref \<Rightarrow> 'w \<Rightarrow> (error + unit) \<times> 'w"
  delete :: "ref \<Rightarrow> 'w \<Rightarrow> (error + unit) \<times> 'w"
  update :: "ref \<Rightarrow> int \<Rightarrow> 'w \<Rightarrow> (error + unit) \<times> 'w"
  ep_title :: "ref \<Rightarrow> 'w \<Rightarrow> string"
  ep_url :: "ref \<Rightarrow> 'w \<Rightarrow> string"
  ep_state :: "ref \<Rightarrow> 'w \<Rightarrow> int"
  ep_is_played :: "ref \<Rightarrow> 'w \<Rightarrow> bool"
  STATE_NORMAL :: int
  STATE_DOWNLOADED :: int
  STATE_DELETED :: int
  DownloadTask :: "ref \<Rightarrow> 'w \<Rightarrow> (error + ref) \<times> 'w"
  QUEUED :: int
  set_status :: "ref \<Rightarrow> int \<Rightarrow> 'w \<Rightarrow> (error + unit) \<times> 'w"
  run :: "ref \<Rightarrow> 'w \<Rightarrow> (error + unit) \<times> 'w"
  load_from_db :: "string \<Rightarrow> 'w \<Rightarrow> (error + ref list) \<times> 'w"
  normalize_feed_url :: "string \<Rightarrow> 'w \<Rightarrow> (error + string) \<times> 'w"
  load :: "string \<Rightarrow> bool \<Rightarrow> int option \<Rightarrow> string \<Rightarrow> 'w \<Rightarrow> (error + ref option) \<times> 'w"
  console_synchronize_device :: "'w \<Rightarrow> (error + unit) \<times> 'w"
  Exporter :: "string \<Rightarrow> 'w \<Rightarrow> (error + ref) \<times> 'w"
  exporter_write :: "ref \<Rightarrow> ref list \<Rightarrow> 'w \<Rightarrow> (error + bool) \<times> 'w"
  db_commit :: "'w \<Rightarrow> (error + unit) \<times> 'w"
  config_download_dir :: "'w \<Rightarrow> string"
  config_max_episodes_per_feed :: "'w \<Rightarrow> int"
  subscription_file :: "'w \<Rightarrow> string"

text \<open>
  In the record above, \<open>chan_title\<close>, \<open>chan_url\<close>, \<open>ep_title\<close>, \<open>ep_url\<close>, \<open>ep_state\<close> and
  \<open>ep_is_played\<close> read an attribute of an entity (\<open>ep_is_played\<close> its truth value, which is
  all that \<open>not\<close> looks at); \<open>STATE_NORMAL\<close>, \<open>STATE_DOWNLOADED\<close>, \<open>STATE_DELETED\<close> and
  \<open>QUEUED\<close> are the constants of \<open>gpodder\<close> and \<open>download.DownloadTask\<close>; \<open>set_status\<close> is the
  assignment to a task's \<open>status\<close>; \<open>load\<close> and \<open>load_from_db\<close> are those of
  \<open>PodcastChannel\<close>, on the database handle \<open>db\<close>; the last three fields read
  \<open>gl.config.download_dir\<close>, \<open>gl.config.max_episodes_per_feed\<close> and
  \<open>gpodder.subscription_file\<close>.  A method whose value the facade drops returns \<open>unit\<close>;
  \<open>exporter_write\<close> returns a truth value, which \<open>finish\<close> drops as well.
\<close>

text \<open>
  The state a call of the facade runs in: the state of the rest of the application and
  the operations performed on it so far, oldest first.
\<close>

record 'w sys =
  world :: 'w
  trace :: "event list"

definition invoke :: "event \<Rightarrow> ('w \<Rightarrow> (error + 'a) \<times> 'w) \<Rightarrow> 'w sys \<Rightarrow> (error + 'a) \<times> 'w sys" where
  "invoke ev f s =
     (case f (world s) of (r, w') \<Rightarrow> (r, s\<lparr>world := w', trace := trace s @ [ev]\<rparr>))"

subsection \<open>class Podcast\<close>

record Podcast =
  P_podcast :: "ref option"
  P_title :: string
  P_url :: string

definition Podcast_init :: "'w app \<Rightarrow> ref \<Rightarrow> 'w \<Rightarrow> Podcast" where
  "Podcast_init C r w =
     \<lparr>P_podcast = Some r, P_title = chan_title C r w, P_url = chan_url C r w\<rparr>"

subsection \<open>class Episode\<close>

record Episode =
  E_episode :: ref
  E_title :: string
  E_url :: string
  E_is_new :: bool
  E_is_downloaded :: bool
  E_is_deleted :: bool

definition Episode_init :: "'w app \<Rightarrow> ref \<Rightarrow> 'w \<Rightarrow> Episode" where
  "Episode_init C e w =
     \<lparr>E_episode = e,
      E_title = ep_title C e w,
      E_url = ep_url C e w,
      E_is_new = (ep_state C e w = STATE_NORMAL C \<and> \<not> ep_is_played C e w),
      E_is_downloaded = (ep_state C e w = STATE_DOWNLOADED C),
      E_is_deleted = (ep_state C e w = STATE_DELETED C)\<rparr>"

definition Episode_download :: "'w app \<Rightarrow> Episode \<Rightarrow> 'w sys \<Rightarrow> (error + unit) \<times> Episode \<times> 'w sys" where
  "Episode_download C self s =
     (case invoke (New_DownloadTask (E_episode self)) (DownloadTask C (E_episode self)) s of
        (Inl x, s1) \<Rightarrow> (Inl x, self, s1)
      | (Inr task, s1) \<Rightarrow>
          (case invoke (Set_status task (QUEUED C)) (set_status C task (QUEUED C)) s1 of
             (Inl x, s2) \<Rightarrow> (Inl x, self, s2)
           | (Inr _, s2) \<Rightarrow>
               (case invoke (Run task) (run C task) s2 of
                  (Inl x, s3) \<Rightarrow> (Inl x, self, s3)
                | (Inr _, s3) \<Rightarrow> (Inr (), self, s3))))"

subsection \<open>Methods of Podcast\<close>





subsection \<open>Module functions\<close>

definition get_podcasts :: "'w app \<Rightarrow> 'w sys \<Rightarrow> (error + Podcast list) \<times> 'w sys" where
  "get_podcasts C s =
     (let dir = config_download_dir C (world s) in
      case invoke (Load_from_db dir) (load_from_db C dir) s of
        (Inl x, s1) \<Rightarrow> (Inl x, s1)
      | (Inr ps, s1) \<Rightarrow> (Inr (map (\<lambda>p. Podcast_init C p (world s1)) ps), s1))"

definition get_podcast :: "'w app \<Rightarrow> string \<Rightarrow> 'w sys \<Rightarrow> (error + Podcast option) \<times> 'w sys" where
  "get_podcast C url s =
     (case invoke (Normalize_feed_url url) (normalize_feed_url C url) s of
        (Inl x, s1) \<Rightarrow> (Inl x, s1)
      | (Inr url1, s1) \<Rightarrow>
          (let dir = config_download_dir C (world s1) in
           case invoke (Load url1 False None dir) (load C url1 False None dir) s1 of
             (Inl x, s2) \<Rightarrow> (Inl x, s2)
           | (Inr None, s2) \<Rightarrow> (Inr None, s2)
           | (Inr (Some channel), s2) \<Rightarrow> (Inr (Some (Podcast_init C channel (world s2))), s2)))"


definition synchronize_device :: "'w app \<Rightarrow> 'w sys \<Rightarrow> (error + unit) \<times> 'w sys" where
  "synchronize_device C s = invoke Synchronize_device (console_synchronize_device C) s"


subsection \<open>A stand-in for the rest of the application\<close>

text \<open>
  The theorems below hold for every implementation of the operations.  To instantiate
  them, here is a small one kept in memory: channel objects are (title, URL) pairs and
  episode objects are (title, URL, state, played) tuples, both referred to by their
  index; the database is the list of subscribed channels; the only feed that cannot be
  fetched is the one with the empty address.  What saving does to a title is left open
  (\<open>on_save\<close>): \<open>id\<close> stores it as it is, \<open>take 8\<close> is a store whose title column holds
  eight characters.
\<close>

record store =
  channels :: "(string \<times> string) list"
  subscribed :: "ref list"
  episodes :: "(string \<times> string \<times> int \<times> bool) list"
  tasks :: "(ref \<times> int) list"
  exporters :: "string list"
  files :: "(string \<times> ref list) list"
  commits :: nat

definition demo_app :: "(string \<Rightarrow> string) \<Rightarrow> store app" where
  "demo_app on_save =
     \<lparr>chan_title = (\<lambda>r w. fst (channels w ! r)),
      chan_url = (\<lambda>r w. snd (channels w ! r)),
      get_all_episodes = (\<lambda>r w. (Inr [0..<length (episodes w)], w)),
      set_custom_title = (\<lambda>r t w. (Inr (), w\<lparr>channels := (channels w)[r := (t, snd (channels w ! r))]\<rparr>)),
      save = (\<lambda>r w. (Inr (),
                w\<lparr>channels := (channels w)[r := (on_save (fst (channels w ! r)), snd (channels w ! r))],
                  subscribed := (if r \<in> set (subscribed w) then subscribed w else subscribed w @ [r])\<rparr>)),
      remove_downloaded = (\<lambda>r w. (Inr (),
                w\<lparr>episodes := map (\<lambda>(t, u, st, pl). (t, u, if st = 1 then 2 else st, pl)) (episodes w)\<rparr>)),
      delete = (\<lambda>r w. (Inr (), w\<lparr>subscribed := removeAll r (subscribed w)\<rparr>)),
      update = (\<lambda>r n w. (Inr (), w)),
      ep_title = (\<lambda>e w. fst (episodes w ! e)),
      ep_url = (\<lambda>e w. fst (snd (episodes w ! e))),
      ep_state = (\<lambda>e w. fst (snd (snd (episodes w ! e)))),
      ep_is_played = (\<lambda>e w. snd (snd (snd (episodes w ! e)))),
      STATE_NORMAL = 0,
      STATE_DOWNLOADED = 1,
      STATE_DELETED = 2,
      DownloadTask = (\<lambda>e w. (Inr (length (tasks w)), w\<lparr>tasks := tasks w @ [(e, 0)]\<rparr>)),
      QUEUED = 1,
      set_status = (\<lambda>t st w. (Inr (), w\<lparr>tasks := (tasks w)[t := (fst (tasks w ! t), st)]\<rparr>)),
      run = (\<lambda>t w. (Inr (),
                w\<lparr>episodes := (episodes w)[fst (tasks w ! t) :=
                                 (case episodes w ! fst (tasks w ! t) of (ti, u, st, pl) \<Rightarrow> (ti, u, 1, pl))],
                  tasks := (tasks w)[t := (fst (tasks w ! t), 3)]\<rparr>)),
      load_from_db = (\<lambda>dir w. (Inr (subscribed w), w)),
      normalize_feed_url = (\<lambda>u w. (Inr (if take 7 u = ''http://'' then u else ''http://'' @ u), w)),
      load = (\<lambda>u create n dir w.
                case filter (\<lambda>r. snd (channels w ! r) = u) (subscribed w) of
                  r # _ \<Rightarrow> (Inr (Some r), w)
                | [] \<Rightarrow>
                    if create \<and> u \<noteq> ''http://''
                    then (Inr (Some (length (channels w))), w\<lparr>channels := channels w @ [(u, u)]\<rparr>)
                    else (Inr None, w)),
      console_synchronize_device = (\<lambda>w. (Inr (), w)),
      Exporter = (\<lambda>path w. (Inr (length (exporters w)), w\<lparr>exporters := exporters w @ [path]\<rparr>)),
      exporter_write = (\<lambda>x ps w. (Inr True,
                w\<lparr>files := (exporters w ! x, ps) # filter (\<lambda>f. fst f \<noteq> exporters w ! x) (files w)\<rparr>)),
      db_commit = (\<lambda>w. (Inr (), w\<lparr>commits := Suc (commits w)\<rparr>)),
      config_download_dir = (\<lambda>w. ''/podcasts''),
      config_max_episodes_per_feed = (\<lambda>w. 200),
      subscription_file = (\<lambda>w. ''channels.opml'')\<rparr>"

definition demo_store :: store where
  "demo_store =
     \<lparr>channels = [(''Linux Outlaws'', ''http://example.org/lo.rss'')],
      subscribed = [0],
      episodes = [(''Episode 1'', ''http://example.org/lo1.ogg'', 0, False)],
      tasks = [],
      exporters = [],
      files = [],
      commits = 0\<rparr>"

definition demo_sys :: "store sys" where
  "demo_sys = \<lparr>world = demo_store, trace = []\<rparr>"

definition demo_podcast :: Podcast where
  "demo_podcast =
     \<lparr>P_podcast = Some 0, P_title = ''Linux Outlaws'', P_url = ''http://example.org/lo.rss''\<rparr>"

definition demo_episode :: Episode where
  "demo_episode =
     \<lparr>E_episode = 0, E_title = ''Episode 1'', E_url = ''http://example.org/lo1.ogg'',
      E_is_new = True, E_is_downloaded = False, E_is_deleted = False\<rparr>"


lemmas demo_defs = demo_app_def demo_store_def demo_sys_def demo_podcast_def demo_episode_def

section \<open>Podcast.rename\<close>




section \<open>Episode\<close>

text \<open>
  Claim C5.  Where the three state constants are distinct, at most one of \<open>is_new\<close>,
  \<open>is_downloaded\<close> and \<open>is_deleted\<close> is true in the projection built from an episode
  entity, whatever the entity's state is (one of the three, or any other value).
\<close>

theorem episode_flags_exclusive:
  assumes "distinct [STATE_NORMAL C, STATE_DOWNLOADED C, STATE_DELETED C]"
  shows "\<not> (E_is_new (Episode_init C e w) \<and> E_is_downloaded (Episode_init C e w))
       \<and> \<not> (E_is_new (Episode_init C e w) \<and> E_is_deleted (Episode_init C e w))
       \<and> \<not> (E_is_downloaded (Episode_init C e w) \<and> E_is_deleted (Episode_init C e w))"
  using assms by (auto simp add: Episode_init_def)

theorem episode_flags_exclusive_witness:
  "distinct [STATE_NORMAL (demo_app id), STATE_DOWNLOADED (demo_app id), STATE_DELETED (demo_app id)]
   \<and> E_is_new (Episode_init (demo_app id) 0 demo_store)
   \<and> \<not> E_is_downloaded (Episode_init (demo_app id) 0 demo_store)
   \<and> \<not> E_is_deleted (Episode_init (demo_app id) 0 demo_store)"
  using episode_flags_exclusive [of "demo_app id" 0 demo_store]
  by (simp add: Episode_init_def demo_defs)

text \<open>
  Claim C6.  The constructor computes \<open>is_new\<close> as (state = normal and not played),
  \<open>is_downloaded\<close> as (state = downloaded) and \<open>is_deleted\<close> as (state = deleted), from the
  entity as it is when the projection is built; the only method of the class, \<open>download\<close>,
  leaves the three values as the constructor set them, however it ends.
\<close>

theorem episode_flags_computed:
  "E_is_new (Episode_init C e w) = (ep_state C e w = STATE_NORMAL C \<and> \<not> ep_is_played C e w)
   \<and> E_is_downloaded (Episode_init C e w) = (ep_state C e w = STATE_DOWNLOADED C)
   \<and> E_is_deleted (Episode_init C e w) = (ep_state C e w = STATE_DELETED C)
   \<and> E_is_new (fst (snd (Episode_download C (Episode_init C e w) s))) = E_is_new (Episode_init C e w)
   \<and> E_is_downloaded (fst (snd (Episode_download C (Episode_init C e w) s))) = E_is_downloaded (Episode_init C e w)
   \<and> E_is_deleted (fst (snd (Episode_download C (Episode_init C e w) s))) = E_is_deleted (Episode_init C e w)"
  by (simp add: Episode_init_def Episode_download_def split: prod.splits sum.splits)



text \<open>
  Claim C10.  \<open>download\<close> leaves the projection as it was, however it ends: \<open>title\<close>, \<open>url\<close>,
  \<open>is_new\<close>, \<open>is_downloaded\<close> and \<open>is_deleted\<close> (and the reference to the entity) are those
  the constructor set.  In particular \<open>is_downloaded\<close> stays false on a projection built
  before the download.
\<close>

theorem download_keeps_snapshot:
  "fst (snd (Episode_download C self s)) = self"
  by (simp add: Episode_download_def split: prod.splits sum.splits)

text \<open>
  An example of the last point: after a download that succeeds, the entity is in the
  downloaded state, the projection built before still says it is not, and a projection
  built afterwards says it is.
\<close>

lemma download_then_refetch_example:
  "fst (Episode_download (demo_app id) demo_episode demo_sys) = Inr ()
   \<and> ep_state (demo_app id) 0 (world (snd (snd (Episode_download (demo_app id) demo_episode demo_sys)))) =
       STATE_DOWNLOADED (demo_app id)
   \<and> \<not> E_is_downloaded (fst (snd (Episode_download (demo_app id) demo_episode demo_sys)))
   \<and> E_is_downloaded (Episode_init (demo_app id) 0
        (world (snd (snd (Episode_download (demo_app id) demo_episode demo_sys)))))"
  by (simp add: Episode_download_def Episode_init_def invoke_def demo_defs)

section \<open>get_podcast\<close>

text \<open>
  Claim C2.  \<open>get_podcast\<close> normalises the URL and then looks the normalised URL up with
  \<open>create=False\<close>; when the lookup finds no subscription (it returns \<open>None\<close>) the function
  returns \<open>None\<close>, it does not raise.  However the call ends, the operations it performs
  are the normalisation alone or the normalisation followed by one \<open>load\<close> with
  \<open>create=False\<close>: it never asks for a subscription to be created or saved.
\<close>

theorem get_podcast_absent:
  "(normalize_feed_url C url (world s) = (Inr url1, w1)
      \<and> load C url1 False None (config_download_dir C w1) w1 = (Inr None, w2) \<longrightarrow>
    get_podcast C url s =
      (Inr None,
       s\<lparr>world := w2,
         trace := trace s @ [Normalize_feed_url url, Load url1 False None (config_download_dir C w1)]\<rparr>))
   \<and> (trace (snd (get_podcast C url s)) = trace s @ [Normalize_feed_url url]
      \<or> (\<exists>u d. trace (snd (get_podcast C url s)) =
                  trace s @ [Normalize_feed_url url, Load u False None d]))"
proof (intro conjI impI)
  assume "normalize_feed_url C url (world s) = (Inr url1, w1)
      \<and> load C url1 False None (config_download_dir C w1) w1 = (Inr None, w2)"
  then show "get_podcast C url s =
      (Inr None,
       s\<lparr>world := w2,
         trace := trace s @ [Normalize_feed_url url, Load url1 False None (config_download_dir C w1)]\<rparr>)"
    by (simp add: get_podcast_def invoke_def)
next
  show "trace (snd (get_podcast C url s)) = trace s @ [Normalize_feed_url url]
      \<or> (\<exists>u d. trace (snd (get_podcast C url s)) =
                  trace s @ [Normalize_feed_url url, Load u False None d])"
    by (auto simp add: get_podcast_def invoke_def Let_def split: prod.splits sum.splits option.splits)
qed

theorem get_podcast_absent_witness:
  "fst (normalize_feed_url (demo_app id) ''example.org/other.rss'' (world demo_sys)) = Inr ''http://example.org/other.rss''
   \<and> fst (load (demo_app id) ''http://example.org/other.rss'' False None ''/podcasts'' demo_store) = Inr None
   \<and> get_podcast (demo_app id) ''example.org/other.rss'' demo_sys =
       (Inr None,
        \<lparr>world = demo_store,
         trace = [Normalize_feed_url ''example.org/other.rss'',
                  Load ''http://example.org/other.rss'' False None ''/podcasts'']\<rparr>)"
  using get_podcast_absent [where C = "demo_app id" and url = "''example.org/other.rss''" and s = demo_sys
      and ?url1.0 = "''http://example.org/other.rss''" and ?w1.0 = demo_store and ?w2.0 = demo_store]
  by (simp add: demo_defs)

section \<open>create_podcast\<close>



section \<open>finish\<close>



section \<open>Podcast.delete\<close>



section \<open>Podcast.rename and the URL\<close>




end
